theory Spec2Isabelle
  imports Main
begin

section \<open>Data model\<close>

text \<open>
  A path of a Mongoose document read from JavaScript is either \<open>undefined\<close> (never
  set), \<open>null\<close> (set to null) or a value of the schema's type. Dates are instants in
  milliseconds since the epoch.
\<close>

datatype 'a field = Undefined | Null | Val 'a

text \<open>
  The three services declare the same schema but for one derived flag each:
  \<open>complianceStatus\<close> (FoodRegulatoryComplianceSystem.js) and \<open>qualityIssue\<close>
  (FoodQualityAlerts.js); a document of a service whose schema lacks a path leaves it
  \<open>Undefined\<close>. \<open>safetyCertifications\<close> is declared \<open>[String]\<close>: Mongoose gives an
  array path the default \<open>[]\<close>, so it is a list of strings.
\<close>

record FoodItem =
  foodItem :: "string field"
  origin :: "string field"
  qualityCheckDate :: "int field"
  freshnessExpiryDate :: "int field"
  safetyCertifications :: "string list"
  contaminationRisk :: "bool field"
  traceId :: "string field"
  complianceStatus :: "bool field"
  qualityIssue :: "bool field"
  lastUpdated :: "int field"

text \<open>JavaScript truthiness of a Boolean path: only the value \<open>true\<close> is truthy.\<close>

fun truthy :: "bool field \<Rightarrow> bool" where
  "truthy (Val b) = b"
| "truthy Undefined = False"
| "truthy Null = False"

section \<open>FoodRegulatoryComplianceSystem.js: checkRegulatoryCompliance\<close>

definition requiredCertifications :: "string list" where
  "requiredCertifications = [''FDA Approved'', ''FSSAI Certified'', ''ISO 22000'']"

definition msgNotCompliant :: string where
  "msgNotCompliant = ''Food item does not meet regulatory compliance standards.''"

definition msgContaminationViolation :: string where
  "msgContaminationViolation =
     ''Food item has a contamination risk, which violates food safety standards.''"

definition msgCompliant :: string where
  "msgCompliant = ''Food item complies with all regulatory standards.''"

text \<open>\<open>Array.prototype.includes\<close> on strings is membership; \<open>every\<close> is \<open>list_all\<close>.\<close>

definition checkRegulatoryCompliance :: "FoodItem \<Rightarrow> string" where
  "checkRegulatoryCompliance doc =
     (let hasRequiredCertifications =
            list_all (\<lambda>cert. cert \<in> set (safetyCertifications doc)) requiredCertifications
      in if \<not> hasRequiredCertifications then msgNotCompliant
         else if truthy (contaminationRisk doc) then msgContaminationViolation
         else msgCompliant)"

text \<open>
  The required certifications a record lacks, in the order of the required list (the
  \<open>filter\<close> of checkQualityIssues, FoodQualityAlerts.js line 53).
\<close>

definition missingCertifications :: "FoodItem \<Rightarrow> string list" where
  "missingCertifications doc =
     filter (\<lambda>cert. cert \<notin> set (safetyCertifications doc)) requiredCertifications"


text \<open>A blank document of a service: every scalar path unset, no certification.\<close>

definition blankItem :: FoodItem where
  "blankItem = \<lparr> foodItem = Undefined, origin = Undefined, qualityCheckDate = Undefined,
     freshnessExpiryDate = Undefined, safetyCertifications = [],
     contaminationRisk = Undefined, traceId = Undefined, complianceStatus = Undefined,
     qualityIssue = Undefined, lastUpdated = Undefined \<rparr>"

section \<open>The moment library, as the evaluators use it\<close>

text \<open>
  A moment is an instant or the invalid moment. \<open>moment(x)\<close> of an undefined \<open>x\<close> is
  \<open>moment()\<close>, a fresh reading of the clock (the argument \<open>clock\<close>); of \<open>null\<close> it is
  the invalid moment; of a date it is that instant.
\<close>

datatype moment = Valid int | Invalid

fun moment_of :: "int \<Rightarrow> int field \<Rightarrow> moment" where
  "moment_of clock Undefined = Valid clock"
| "moment_of clock Null = Invalid"
| "moment_of clock (Val t) = Valid t"

text \<open>
  \<open>a.diff(b, "hours")\<close> divides the difference in milliseconds by 36e5 and applies
  \<open>absFloor\<close>, which rounds toward zero (\<open>Math.ceil\<close> below zero, \<open>Math.floor\<close>
  otherwise); with an invalid moment on either side the result is NaN, here \<open>None\<close>.
  The quotient is taken exactly: the rounding of the floating-point division is not
  modelled.
\<close>

definition absFloor_div :: "int \<Rightarrow> int \<Rightarrow> int" where
  "absFloor_div a b = (if a < 0 then - ((- a) div b) else a div b)"

fun diff_hours :: "moment \<Rightarrow> moment \<Rightarrow> int option" where
  "diff_hours (Valid a) (Valid b) = Some (absFloor_div (a - b) 3600000)"
| "diff_hours _ _ = None"

text \<open>\<open>a.isBefore(b)\<close>: both valid and \<open>a\<close> strictly earlier.\<close>

fun isBefore :: "moment \<Rightarrow> moment \<Rightarrow> bool" where
  "isBefore (Valid a) (Valid b) = (a < b)"
| "isBefore _ _ = False"

text \<open>\<open>x < n\<close> on a JavaScript number: false when \<open>x\<close> is NaN.\<close>

fun js_less :: "int option \<Rightarrow> int \<Rightarrow> bool" where
  "js_less (Some x) n = (x < n)"
| "js_less None n = False"

text \<open>The decimal rendering of an integer inside a template literal.\<close>

definition digit :: "nat \<Rightarrow> char" where
  "digit d = (''0123456789'' ! d)"

fun decimal :: "nat \<Rightarrow> string" where
  "decimal n = (if n < 10 then [digit n] else decimal (n div 10) @ [digit (n mod 10)])"

fun number_string :: "int option \<Rightarrow> string" where
  "number_string None = ''NaN''"
| "number_string (Some x) = (if x < 0 then ''-'' @ decimal (nat (- x)) else decimal (nat x))"

text \<open>\<open>xs.join(sep)\<close>.\<close>

fun join :: "string \<Rightarrow> string list \<Rightarrow> string" where
  "join sep [] = []"
| "join sep [x] = x"
| "join sep (x # y # ys) = x @ sep @ join sep (y # ys)"

section \<open>QualityAssurance.js: checkFoodTrustworthiness\<close>

definition msgExpired :: string where
  "msgExpired = ''Food item has expired.''"

definition nearExpiryPrefix :: string where
  "nearExpiryPrefix = ''Food item is nearing expiration (''"

definition msgNearExpiry :: "int option \<Rightarrow> string" where
  "msgNearExpiry h = nearExpiryPrefix @ number_string h @ '' hours remaining).''"

definition msgContaminationRisk :: string where
  "msgContaminationRisk = ''Food item has a contamination risk.''"

text \<open>
  \<open>now\<close> is the reading of \<open>moment()\<close> at line 32; \<open>now2\<close> is the reading the library
  takes at line 36 when \<open>freshnessExpiryDate\<close> is undefined. Each \<open>push\<close> appends to
  the alerts collected so far.
\<close>

definition checkFoodTrustworthiness :: "int \<Rightarrow> int \<Rightarrow> FoodItem \<Rightarrow> string list" where
  "checkFoodTrustworthiness now now2 doc =
     (let currentTime = Valid now;
          contaminationAlerts = [];
          freshnessExpiry = moment_of now2 (freshnessExpiryDate doc);
          hoursUntilExpiry = diff_hours freshnessExpiry currentTime;
          contaminationAlerts =
            (if js_less hoursUntilExpiry 0 then contaminationAlerts @ [msgExpired]
             else if js_less hoursUntilExpiry 24
               then contaminationAlerts @ [msgNearExpiry hoursUntilExpiry]
             else contaminationAlerts);
          contaminationAlerts =
            (if truthy (contaminationRisk doc)
               then contaminationAlerts @ [msgContaminationRisk]
             else contaminationAlerts)
      in contaminationAlerts)"

text \<open>The kinds of alert, read off the message.\<close>

definition isExpired :: "string \<Rightarrow> bool" where
  "isExpired s = (s = msgExpired)"

definition isNearExpiry :: "string \<Rightarrow> bool" where
  "isNearExpiry s = (take (length nearExpiryPrefix) s = nearExpiryPrefix)"

definition isContaminationRisk :: "string \<Rightarrow> bool" where
  "isContaminationRisk s = (s = msgContaminationRisk)"

definition isExpiryRelated :: "string \<Rightarrow> bool" where
  "isExpiryRelated s = (isExpired s \<or> isNearExpiry s)"

text \<open>The contamination alert a record's risk flag gives: one alert or none.\<close>

definition riskAlerts :: "FoodItem \<Rightarrow> string list" where
  "riskAlerts doc = (if truthy (contaminationRisk doc) then [msgContaminationRisk] else [])"

section \<open>FoodQualityAlerts.js: checkQualityIssues\<close>

definition msgQContamination :: string where
  "msgQContamination = ''Food item has contamination risk.''"

definition msgMissing :: "string list \<Rightarrow> string" where
  "msgMissing missing = ''Missing required certifications: '' @ join '', '' missing"

text \<open>
  \<open>now\<close> is the reading of \<open>moment()\<close> at line 45; \<open>now2\<close> is the reading the library
  takes at line 46 when \<open>freshnessExpiryDate\<close> is undefined.
\<close>

definition checkQualityIssues :: "int \<Rightarrow> int \<Rightarrow> FoodItem \<Rightarrow> string list" where
  "checkQualityIssues now now2 doc =
     (let qualityAlerts = [];
          qualityAlerts =
            (if truthy (contaminationRisk doc) then qualityAlerts @ [msgQContamination]
             else qualityAlerts);
          currentDate = Valid now;
          expiryDate = moment_of now2 (freshnessExpiryDate doc);
          qualityAlerts =
            (if isBefore expiryDate currentDate then qualityAlerts @ [msgExpired]
             else qualityAlerts);
          missing =
            filter (\<lambda>cert. cert \<notin> set (safetyCertifications doc)) requiredCertifications;
          qualityAlerts =
            (if length missing > 0 then qualityAlerts @ [msgMissing missing]
             else qualityAlerts)
      in qualityAlerts)"



section \<open>The record store: FoodItem.findOne and FoodItem.findOneAndUpdate\<close>

text \<open>
  A collection is the list of its documents, in natural order, behind a connection that
  may be down. A store call on a lost connection, or an update that breaks the unique
  index on \<open>traceId\<close>, throws; the handlers catch every throw.
\<close>

datatype error = StoreError

record collection =
  docs :: "FoodItem list"
  connected :: bool

definition findOne :: "collection \<Rightarrow> string \<Rightarrow> error + FoodItem option" where
  "findOne c tid =
     (if \<not> connected c then Inl StoreError
      else Inr (find (\<lambda>d. traceId d = Val tid) (docs c)))"

text \<open>
  The request body of an update after JSON parsing and the schema's casts: a key that
  is not supplied is \<open>Undefined\<close> (\<open>None\<close> for the array), a key supplied as null is
  \<open>Null\<close>.
\<close>

record updateData =
  upd_foodItem :: "string field"
  upd_origin :: "string field"
  upd_qualityCheckDate :: "int field"
  upd_freshnessExpiryDate :: "int field"
  upd_safetyCertifications :: "string list option"
  upd_contaminationRisk :: "bool field"
  upd_traceId :: "string field"
  upd_complianceStatus :: "bool field"
  upd_qualityIssue :: "bool field"
  upd_lastUpdated :: "int field"

text \<open>
  \<open>{ ...updatedData, lastUpdated: Date.now() }\<close>: the later key wins, so whatever
  \<open>lastUpdated\<close> the body carries is replaced by the clock reading \<open>t\<close>.
\<close>

definition updateDocument :: "int \<Rightarrow> updateData \<Rightarrow> updateData" where
  "updateDocument t updatedData = updatedData\<lparr>upd_lastUpdated := Val t\<rparr>"

text \<open>
  The three programs and their schemas. In strict mode (the default) Mongoose drops
  from an update every path the schema does not declare.
\<close>

datatype service = RegulatoryCompliance | QualityAssurance | QualityAlerts

fun strict :: "service \<Rightarrow> updateData \<Rightarrow> updateData" where
  "strict RegulatoryCompliance u = u\<lparr>upd_qualityIssue := Undefined\<rparr>"
| "strict QualityAssurance u = u\<lparr>upd_complianceStatus := Undefined, upd_qualityIssue := Undefined\<rparr>"
| "strict QualityAlerts u = u\<lparr>upd_complianceStatus := Undefined\<rparr>"

text \<open>\<open>$set\<close> of one path: a key that is not supplied leaves the stored value.\<close>

fun set_field :: "'a field \<Rightarrow> 'a field \<Rightarrow> 'a field" where
  "set_field Undefined old = old"
| "set_field Null old = Null"
| "set_field (Val v) old = Val v"

fun set_array :: "'a list option \<Rightarrow> 'a list \<Rightarrow> 'a list" where
  "set_array None old = old"
| "set_array (Some xs) old = xs"

definition applySet :: "updateData \<Rightarrow> FoodItem \<Rightarrow> FoodItem" where
  "applySet u d =
     \<lparr> foodItem = set_field (upd_foodItem u) (foodItem d),
       origin = set_field (upd_origin u) (origin d),
       qualityCheckDate = set_field (upd_qualityCheckDate u) (qualityCheckDate d),
       freshnessExpiryDate = set_field (upd_freshnessExpiryDate u) (freshnessExpiryDate d),
       safetyCertifications = set_array (upd_safetyCertifications u) (safetyCertifications d),
       contaminationRisk = set_field (upd_contaminationRisk u) (contaminationRisk d),
       traceId = set_field (upd_traceId u) (traceId d),
       complianceStatus = set_field (upd_complianceStatus u) (complianceStatus d),
       qualityIssue = set_field (upd_qualityIssue u) (qualityIssue d),
       lastUpdated = set_field (upd_lastUpdated u) (lastUpdated d) \<rparr>"

text \<open>The key of a document in the unique index: a missing path is indexed as null.\<close>

fun indexKey :: "string field \<Rightarrow> string option" where
  "indexKey (Val s) = Some s"
| "indexKey Undefined = None"
| "indexKey Null = None"

fun replace_first :: "('a \<Rightarrow> bool) \<Rightarrow> 'a \<Rightarrow> 'a list \<Rightarrow> 'a list" where
  "replace_first P y [] = []"
| "replace_first P y (x # xs) = (if P x then y # xs else x # replace_first P y xs)"

text \<open>
  \<open>findOneAndUpdate({ traceId }, update, { new: true })\<close>: the first matching document
  is updated in place and returned as it is after the update; with no match nothing is
  written and the result is null (there is no upsert). An update that moves the document
  to the \<open>traceId\<close> of another document is refused by the unique index.
\<close>

definition findOneAndUpdate ::
  "service \<Rightarrow> collection \<Rightarrow> string \<Rightarrow> updateData \<Rightarrow> error + (FoodItem option \<times> collection)" where
  "findOneAndUpdate s c tid update =
     (if \<not> connected c then Inl StoreError
      else case find (\<lambda>d. traceId d = Val tid) (docs c) of
        None \<Rightarrow> Inr (None, c)
      | Some d \<Rightarrow>
          (let d' = applySet (strict s update) d;
               others = remove1 d (docs c)
           in if indexKey (traceId d') \<noteq> indexKey (traceId d) \<and>
                 indexKey (traceId d') \<in> set (map (\<lambda>x. indexKey (traceId x)) others)
              then Inl StoreError
              else Inr (Some d',
                     c\<lparr>docs := replace_first (\<lambda>x. traceId x = Val tid) d' (docs c)\<rparr>)))"

section \<open>Responses\<close>

text \<open>
  A response is its HTTP status and the JSON object sent, as the list of its keys in
  order; \<open>res.json\<close> without \<open>res.status\<close> sends 200. \<open>JSON.stringify\<close> leaves out a
  key whose value is undefined. A date is kept as its instant.
\<close>

datatype json = JString string | JBoolean bool | JDate int | JNull | JStrings "string list"

record response =
  status :: nat
  body :: "(string \<times> json) list"

fun jprop :: "string \<Rightarrow> ('a \<Rightarrow> json) \<Rightarrow> 'a field \<Rightarrow> (string \<times> json) list" where
  "jprop k to_json Undefined = []"
| "jprop k to_json Null = [(k, JNull)]"
| "jprop k to_json (Val v) = [(k, to_json v)]"

definition errorResponse :: "nat \<Rightarrow> string \<Rightarrow> response" where
  "errorResponse code msg = \<lparr> status = code, body = [(''error'', JString msg)] \<rparr>"

definition notFound :: response where
  "notFound = errorResponse 404 ''Food item not found.''"

section \<open>FoodRegulatoryComplianceSystem.js: the request handlers\<close>

definition notCompliantResponse :: "string \<Rightarrow> response" where
  "notCompliantResponse result =
     \<lparr> status = 400,
       body = [(''error'', JString ''Food item is not compliant with regulatory standards.''),
               (''complianceStatus'', JString result)] \<rparr>"

definition complianceBody :: "FoodItem \<Rightarrow> (string \<times> json) list" where
  "complianceBody doc =
     jprop ''foodItem'' JString (foodItem doc) @
     jprop ''origin'' JString (origin doc) @
     [(''safetyCertifications'', JStrings (safetyCertifications doc))] @
     jprop ''contaminationRisk'' JBoolean (contaminationRisk doc) @
     jprop ''freshnessExpiryDate'' JDate (freshnessExpiryDate doc) @
     jprop ''traceId'' JString (traceId doc) @
     [(''complianceStatus'', JString ''Food item complies with all regulatory standards.'')] @
     jprop ''lastUpdated'' JDate (lastUpdated doc)"


text \<open>\<open>t\<close> is the reading of \<open>Date.now()\<close> at line 102.\<close>

definition compliance_post ::
  "collection \<Rightarrow> string \<Rightarrow> updateData \<Rightarrow> int \<Rightarrow> response \<times> collection" where
  "compliance_post c tid updatedData t =
     (case findOneAndUpdate RegulatoryCompliance c tid (updateDocument t updatedData) of
        Inl e \<Rightarrow> (errorResponse 500 ''Failed to update food item data.'', c)
      | Inr (None, c') \<Rightarrow> (notFound, c')
      | Inr (Some doc, c') \<Rightarrow>
          (let result = checkRegulatoryCompliance doc
           in if result \<noteq> ''Food item complies with all regulatory standards.''
              then (notCompliantResponse result, c')
              else (\<lparr> status = 200,
                      body = complianceBody doc @
                        [(''message'', JString
                           ''Food item traceability and compliance information updated successfully.'')] \<rparr>,
                    c')))"

section \<open>QualityAssurance.js: the request handlers\<close>

definition qualityConcernsResponse :: "string list \<Rightarrow> response" where
  "qualityConcernsResponse alerts =
     \<lparr> status = 400,
       body = [(''error'', JString ''Food item has quality concerns.''),
               (''contaminationAlerts'', JStrings alerts)] \<rparr>"

definition trustBody :: "FoodItem \<Rightarrow> string \<Rightarrow> (string \<times> json) list" where
  "trustBody doc message =
     jprop ''foodItem'' JString (foodItem doc) @
     jprop ''origin'' JString (origin doc) @
     [(''safetyCertifications'', JStrings (safetyCertifications doc))] @
     jprop ''contaminationRisk'' JBoolean (contaminationRisk doc) @
     jprop ''freshnessExpiryDate'' JDate (freshnessExpiryDate doc) @
     jprop ''traceId'' JString (traceId doc) @
     jprop ''lastUpdated'' JDate (lastUpdated doc) @
     [(''message'', JString message)]"

text \<open>\<open>now\<close> and \<open>now2\<close> are the clock readings of checkFoodTrustworthiness.\<close>

definition trust_get :: "collection \<Rightarrow> string \<Rightarrow> int \<Rightarrow> int \<Rightarrow> response" where
  "trust_get c tid now now2 =
     (case findOne c tid of
        Inl e \<Rightarrow> errorResponse 500 ''Failed to fetch food item data.''
      | Inr None \<Rightarrow> notFound
      | Inr (Some doc) \<Rightarrow>
          (let contaminationAlerts = checkFoodTrustworthiness now now2 doc
           in if length contaminationAlerts > 0
              then qualityConcernsResponse contaminationAlerts
              else \<lparr> status = 200,
                     body = trustBody doc ''Food item is safe and trustworthy.'' \<rparr>))"


section \<open>FoodQualityAlerts.js: notifyQualityIssue and the request handlers\<close>

text \<open>
  The event \<open>io.emit('qualityAlert', ...)\<close> sends to every connected client. The
  timestamp is kept as the clock reading \<open>tEmit\<close>, not as its formatted text. A template
  literal renders an undefined path as \<open>undefined\<close> and a null one as \<open>null\<close>.
\<close>

record qualityAlert =
  ev_traceId :: "string field"
  alertMessage :: string
  ev_foodItem :: "string field"
  timestamp :: int

fun template :: "string field \<Rightarrow> string" where
  "template Undefined = ''undefined''"
| "template Null = ''null''"
| "template (Val s) = s"

definition notifyQualityIssue :: "int \<Rightarrow> FoodItem \<Rightarrow> string list \<Rightarrow> qualityAlert" where
  "notifyQualityIssue tEmit doc qualityAlerts =
     \<lparr> ev_traceId = traceId doc,
       alertMessage = ''Quality issues detected for '' @ template (foodItem doc) @ '': '' @
                      join '' '' qualityAlerts,
       ev_foodItem = foodItem doc,
       timestamp = tEmit \<rparr>"

definition qualityBody :: "FoodItem \<Rightarrow> string list \<Rightarrow> (string \<times> json) list" where
  "qualityBody doc qualityAlerts =
     jprop ''foodItem'' JString (foodItem doc) @
     jprop ''origin'' JString (origin doc) @
     [(''safetyCertifications'', JStrings (safetyCertifications doc))] @
     jprop ''contaminationRisk'' JBoolean (contaminationRisk doc) @
     jprop ''freshnessExpiryDate'' JDate (freshnessExpiryDate doc) @
     jprop ''traceId'' JString (traceId doc) @
     [(''qualityAlerts'', JStrings qualityAlerts)] @
     jprop ''lastUpdated'' JDate (lastUpdated doc)"


definition quality_post ::
  "collection \<Rightarrow> string \<Rightarrow> updateData \<Rightarrow> int \<Rightarrow> int \<Rightarrow> int \<Rightarrow> int \<Rightarrow>
     response \<times> qualityAlert list \<times> collection" where
  "quality_post c tid updatedData t now now2 tEmit =
     (case findOneAndUpdate QualityAlerts c tid (updateDocument t updatedData) of
        Inl e \<Rightarrow> (errorResponse 500 ''Failed to update food item data.'', [], c)
      | Inr (None, c') \<Rightarrow> (notFound, [], c')
      | Inr (Some doc, c') \<Rightarrow>
          (let qualityAlerts = checkQualityIssues now now2 doc;
               emitted = (if length qualityAlerts > 0
                          then [notifyQualityIssue tEmit doc qualityAlerts] else [])
           in (\<lparr> status = 200,
                 body = qualityBody doc qualityAlerts @
                   [(''message'', JString
                      ''Food item traceability and quality information updated successfully.'')] \<rparr>,
               emitted, c')))"

text \<open>A body that supplies no key, and a collection holding one document.\<close>

definition emptyUpdate :: updateData where
  "emptyUpdate = \<lparr> upd_foodItem = Undefined, upd_origin = Undefined,
     upd_qualityCheckDate = Undefined, upd_freshnessExpiryDate = Undefined,
     upd_safetyCertifications = None, upd_contaminationRisk = Undefined,
     upd_traceId = Undefined, upd_complianceStatus = Undefined,
     upd_qualityIssue = Undefined, upd_lastUpdated = Undefined \<rparr>"

definition single :: "FoodItem \<Rightarrow> collection" where
  "single d = \<lparr> docs = [d], connected = True \<rparr>"


section \<open>Properties of checkRegulatoryCompliance\<close>


lemma hasRequired_iff_none_missing:
  "list_all (\<lambda>cert. cert \<in> set cs) rs \<longleftrightarrow> filter (\<lambda>cert. cert \<notin> set cs) rs = []"
  by (induction rs) auto



lemma checkRegulatoryCompliance_eq:
  "checkRegulatoryCompliance doc =
     (if missingCertifications doc \<noteq> [] then msgNotCompliant
      else if truthy (contaminationRisk doc) then msgContaminationViolation
      else msgCompliant)"
  by (simp add: checkRegulatoryCompliance_def missingCertifications_def
        hasRequired_iff_none_missing Let_def)




section \<open>Properties of checkFoodTrustworthiness\<close>

declare decimal.simps [simp del]

lemma isNearExpiry_msgNearExpiry [simp]: "isNearExpiry (msgNearExpiry h)"
  by (simp add: isNearExpiry_def msgNearExpiry_def)

lemma kinds_of_messages [simp]:
  "\<not> isNearExpiry msgExpired" "\<not> isNearExpiry msgContaminationRisk"
  "isExpired msgExpired" "\<not> isExpired msgContaminationRisk"
  "isContaminationRisk msgContaminationRisk" "\<not> isContaminationRisk msgExpired"
  by (simp_all add: isNearExpiry_def isExpired_def isContaminationRisk_def
        nearExpiryPrefix_def msgExpired_def msgContaminationRisk_def)

lemma not_expired_near [simp]: "\<not> isExpired (msgNearExpiry h)"
  by (simp add: isExpired_def msgNearExpiry_def nearExpiryPrefix_def msgExpired_def)

lemma not_contamination_near [simp]: "\<not> isContaminationRisk (msgNearExpiry h)"
  by (simp add: isContaminationRisk_def msgNearExpiry_def nearExpiryPrefix_def
        msgContaminationRisk_def)

lemma kinds_disjoint: "isContaminationRisk s \<Longrightarrow> \<not> isExpiryRelated s"
  by (simp add: isContaminationRisk_def isExpiryRelated_def)

lemma checkFoodTrustworthiness_eq:
  "checkFoodTrustworthiness now now2 doc =
     (let h = diff_hours (moment_of now2 (freshnessExpiryDate doc)) (Valid now)
      in (if js_less h 0 then [msgExpired]
          else if js_less h 24 then [msgNearExpiry h] else []) @ riskAlerts doc)"
  by (simp add: checkFoodTrustworthiness_def riskAlerts_def Let_def)



lemma hours_past:
  fixes d :: int
  assumes "d \<le> - 3600000"
  shows "absFloor_div d 3600000 < 0"
proof -
  have "1 \<le> (- d) div 3600000" using assms by simp
  then show ?thesis using assms by (simp add: absFloor_div_def)
qed

lemma hours_just_past:
  fixes d :: int
  assumes "- 3600000 < d" "d < 3600000"
  shows "absFloor_div d 3600000 = 0"
  using assms by (simp add: absFloor_div_def)

text \<open>
  C3 (as amended): with an absent freshnessExpiryDate the trustworthiness evaluation
  does not fail, it returns an alert sequence. When the path is undefined the library
  reads the clock again, so (the two readings less than an hour apart) the evaluation
  emits the NearExpiry alert with 0 hours; when the path is null the hour count is NaN
  and no expiry alert is emitted. The ContaminationRisk alert follows as usual.
\<close>

theorem trust_absent_date_no_failure:
  "(freshnessExpiryDate doc = Undefined \<and> - 3600000 < now2 - now \<and> now2 - now < 3600000 \<longrightarrow>
      checkFoodTrustworthiness now now2 doc = msgNearExpiry (Some 0) # riskAlerts doc) \<and>
   (freshnessExpiryDate doc = Null \<longrightarrow>
      checkFoodTrustworthiness now now2 doc = riskAlerts doc)"
  by (simp add: checkFoodTrustworthiness_eq hours_just_past)

theorem trust_absent_date_no_failure_witness:
  "freshnessExpiryDate blankItem = Undefined \<and> - 3600000 < (1005::int) - 1000 \<and>
   (1005::int) - 1000 < 3600000 \<and>
   checkFoodTrustworthiness 1000 1005 blankItem =
     [''Food item is nearing expiration (0 hours remaining).''] \<and>
   freshnessExpiryDate (blankItem\<lparr>freshnessExpiryDate := Null,
       contaminationRisk := Val True\<rparr>) = Null \<and>
   checkFoodTrustworthiness 1000 1005
       (blankItem\<lparr>freshnessExpiryDate := Null, contaminationRisk := Val True\<rparr>) =
     [''Food item has a contamination risk.'']"
  using trust_absent_date_no_failure [of blankItem 1005 1000]
    trust_absent_date_no_failure
      [of "blankItem\<lparr>freshnessExpiryDate := Null, contaminationRisk := Val True\<rparr>" 1005 1000]
  by (simp add: blankItem_def riskAlerts_def msgNearExpiry_def nearExpiryPrefix_def
        msgContaminationRisk_def decimal.simps digit_def)

text \<open>
  C3 as stated fails: on a record with no freshnessExpiryDate the evaluation returns
  an alert sequence, and the GET handler sends it with status 400, not the 500 of its
  catch branch.
\<close>

theorem trust_absent_date_returns_alerts:
  "checkFoodTrustworthiness 1000 1000 (blankItem\<lparr>traceId := Val ''T1''\<rparr>) =
     [''Food item is nearing expiration (0 hours remaining).''] \<and>
   trust_get (single (blankItem\<lparr>traceId := Val ''T1''\<rparr>)) ''T1'' 1000 1000 =
     \<lparr> status = 400,
       body = [(''error'', JString ''Food item has quality concerns.''),
               (''contaminationAlerts'',
                JStrings [''Food item is nearing expiration (0 hours remaining).''])] \<rparr>"
  by (simp add: trust_get_def findOne_def single_def qualityConcernsResponse_def
        checkFoodTrustworthiness_eq blankItem_def riskAlerts_def absFloor_div_def
        msgNearExpiry_def nearExpiryPrefix_def decimal.simps digit_def)

text \<open>
  C4, evaluated where it fails: a record that expired half an hour before the
  evaluation gets the NearExpiry alert with 0 hours and no Expired alert, because the
  hour difference is rounded toward zero.
\<close>

theorem trust_expired_within_the_hour:
  "checkFoodTrustworthiness 3600000 3600000 (blankItem\<lparr>freshnessExpiryDate := Val 1800000\<rparr>) =
     [''Food item is nearing expiration (0 hours remaining).'']"
  by (simp add: checkFoodTrustworthiness_eq blankItem_def riskAlerts_def absFloor_div_def
        msgNearExpiry_def nearExpiryPrefix_def decimal.simps digit_def)

text \<open>From one whole hour past the expiry on, the Expired alert is emitted.\<close>

lemma trust_expired_an_hour_ago:
  assumes "freshnessExpiryDate doc = Val t" "t \<le> now - 3600000"
  shows "checkFoodTrustworthiness now now2 doc = msgExpired # riskAlerts doc"
  using assms hours_past [of "t - now"] by (simp add: checkFoodTrustworthiness_eq)



text \<open>
  C6: the alert sequence is its expiry-related alerts (Expired or NearExpiry, at most
  one) followed by its ContaminationRisk alerts (at most one, present exactly when the
  risk flag is set); an alert of one kind is not of the other (\<open>kinds_disjoint\<close>).
\<close>

theorem trust_alert_order:
  "checkFoodTrustworthiness now now2 doc =
     filter isExpiryRelated (checkFoodTrustworthiness now now2 doc) @
     filter isContaminationRisk (checkFoodTrustworthiness now now2 doc) \<and>
   length (filter isExpiryRelated (checkFoodTrustworthiness now now2 doc)) \<le> 1 \<and>
   length (filter isContaminationRisk (checkFoodTrustworthiness now now2 doc)) \<le> 1 \<and>
   filter isContaminationRisk (checkFoodTrustworthiness now now2 doc) = riskAlerts doc"
  by (simp add: checkFoodTrustworthiness_eq Let_def riskAlerts_def isExpiryRelated_def)

section \<open>Properties of checkQualityIssues\<close>




section \<open>Properties of the request handlers\<close>



lemma findOne_found:
  "findOne c tid = Inr (Some doc) \<longleftrightarrow>
     connected c \<and> find (\<lambda>d. traceId d = Val tid) (docs c) = Some doc"
  by (simp add: findOne_def)










section \<open>Properties of the update\<close>



lemma findOneAndUpdate_accepted:
  assumes "findOne c tid = Inr (Some d)"
    and "findOneAndUpdate s c tid upd = Inr (Some doc', c')"
  shows "doc' = applySet (strict s upd) d"
    and "c' = c\<lparr>docs := replace_first (\<lambda>x. traceId x = Val tid) doc' (docs c)\<rparr>"
  using assms
  by (auto simp: findOne_def findOneAndUpdate_def Let_def split: if_splits)


lemma single_found: "traceId d = Val tid \<Longrightarrow> findOne (single d) tid = Inr (Some d)"
  by (simp add: findOne_def single_def)



text \<open>
  C8 (as amended): after an accepted update a derived status field that the body
  supplies is stored as the client gave it when the service's schema declares it
  (complianceStatus in FoodRegulatoryComplianceSystem.js, qualityIssue in
  FoodQualityAlerts.js), is dropped when the schema does not declare it, and keeps its
  old value when it is not supplied: no handler recomputes the stored flag. What the
  evaluators report does not depend on the stored flags.
\<close>

theorem update_stores_supplied_derived_fields:
  assumes found: "findOne c tid = Inr (Some d)"
    and accepted: "findOneAndUpdate s c tid (updateDocument t u) = Inr (Some doc', c')"
  shows "complianceStatus doc' =
           (if s = RegulatoryCompliance
            then set_field (upd_complianceStatus u) (complianceStatus d)
            else complianceStatus d) \<and>
         qualityIssue doc' =
           (if s = QualityAlerts then set_field (upd_qualityIssue u) (qualityIssue d)
            else qualityIssue d) \<and>
         checkRegulatoryCompliance doc' =
           checkRegulatoryCompliance (doc'\<lparr>complianceStatus := x, qualityIssue := y\<rparr>) \<and>
         checkFoodTrustworthiness now now2 doc' =
           checkFoodTrustworthiness now now2 (doc'\<lparr>complianceStatus := x, qualityIssue := y\<rparr>) \<and>
         checkQualityIssues now now2 doc' =
           checkQualityIssues now now2 (doc'\<lparr>complianceStatus := x, qualityIssue := y\<rparr>)"
proof -
  note acc = findOneAndUpdate_accepted [OF found accepted]
  have derived: "complianceStatus doc' =
           (if s = RegulatoryCompliance
            then set_field (upd_complianceStatus u) (complianceStatus d)
            else complianceStatus d)"
      "qualityIssue doc' =
           (if s = QualityAlerts then set_field (upd_qualityIssue u) (qualityIssue d)
            else qualityIssue d)"
    unfolding acc(1) by (cases s; simp add: applySet_def updateDocument_def)+
  have evals: "checkRegulatoryCompliance doc' =
           checkRegulatoryCompliance (doc'\<lparr>complianceStatus := x, qualityIssue := y\<rparr>)"
      "checkFoodTrustworthiness now now2 doc' =
           checkFoodTrustworthiness now now2 (doc'\<lparr>complianceStatus := x, qualityIssue := y\<rparr>)"
      "checkQualityIssues now now2 doc' =
           checkQualityIssues now now2 (doc'\<lparr>complianceStatus := x, qualityIssue := y\<rparr>)"
    by (simp_all add: checkRegulatoryCompliance_def checkFoodTrustworthiness_def
          checkQualityIssues_def)
  from derived evals show ?thesis by blast
qed

theorem update_stores_supplied_derived_fields_witness:
  "findOne (single (blankItem\<lparr>traceId := Val ''T1'', complianceStatus := Val False\<rparr>)) ''T1'' =
     Inr (Some (blankItem\<lparr>traceId := Val ''T1'', complianceStatus := Val False\<rparr>)) \<and>
   findOneAndUpdate RegulatoryCompliance
       (single (blankItem\<lparr>traceId := Val ''T1'', complianceStatus := Val False\<rparr>)) ''T1''
       (updateDocument 99 (emptyUpdate\<lparr>upd_complianceStatus := Val True,
          upd_qualityIssue := Val True\<rparr>)) =
     Inr (Some (blankItem\<lparr>traceId := Val ''T1'', complianceStatus := Val True,
                  lastUpdated := Val 99\<rparr>),
          single (blankItem\<lparr>traceId := Val ''T1'', complianceStatus := Val True,
                    lastUpdated := Val 99\<rparr>)) \<and>
   complianceStatus (blankItem\<lparr>traceId := Val ''T1'', complianceStatus := Val True,
       lastUpdated := Val 99\<rparr>) = Val True \<and>
   qualityIssue (blankItem\<lparr>traceId := Val ''T1'', complianceStatus := Val True,
       lastUpdated := Val 99\<rparr>) = Undefined"
proof -
  let ?d = "blankItem\<lparr>traceId := Val ''T1'', complianceStatus := Val False\<rparr>"
  let ?u = "emptyUpdate\<lparr>upd_complianceStatus := Val True, upd_qualityIssue := Val True\<rparr>"
  let ?d' = "blankItem\<lparr>traceId := Val ''T1'', complianceStatus := Val True,
       lastUpdated := Val 99\<rparr>"
  have f: "findOne (single ?d) ''T1'' = Inr (Some ?d)"
    by (simp add: single_found blankItem_def)
  have a: "findOneAndUpdate RegulatoryCompliance (single ?d) ''T1'' (updateDocument 99 ?u) =
      Inr (Some ?d', single ?d')"
    by (simp add: findOneAndUpdate_def single_def updateDocument_def applySet_def
          emptyUpdate_def blankItem_def Let_def)
  from update_stores_supplied_derived_fields [OF f a, of Undefined Undefined 0 0] f a
  show ?thesis by (simp add: blankItem_def)
qed

text \<open>
  C8 as stated fails: a body that sets complianceStatus to true on a record without
  certifications is answered as non-compliant, and the flag is stored as true all the
  same; likewise qualityIssue is stored as false on a record with a contamination risk.
\<close>

theorem update_stores_client_derived_flags:
  "compliance_post (single (blankItem\<lparr>traceId := Val ''T1''\<rparr>)) ''T1''
       (emptyUpdate\<lparr>upd_complianceStatus := Val True\<rparr>) 99 =
     (\<lparr> status = 400,
        body = [(''error'', JString ''Food item is not compliant with regulatory standards.''),
                (''complianceStatus'',
                 JString ''Food item does not meet regulatory compliance standards.'')] \<rparr>,
      single (blankItem\<lparr>traceId := Val ''T1'', complianceStatus := Val True,
                lastUpdated := Val 99\<rparr>)) \<and>
   snd (snd (quality_post (single (blankItem\<lparr>traceId := Val ''T1'',
          contaminationRisk := Val True\<rparr>)) ''T1''
       (emptyUpdate\<lparr>upd_qualityIssue := Val False\<rparr>) 99 100 100 101)) =
     single (blankItem\<lparr>traceId := Val ''T1'', contaminationRisk := Val True,
               qualityIssue := Val False, lastUpdated := Val 99\<rparr>)"
  by (simp add: compliance_post_def quality_post_def findOneAndUpdate_def single_def
        updateDocument_def applySet_def emptyUpdate_def blankItem_def Let_def
        notCompliantResponse_def checkRegulatoryCompliance_eq missingCertifications_def
        requiredCertifications_def msgNotCompliant_def)

end
